theory Spec2Isabelle
  imports Main "HOL-Library.AList" "HOL-Library.Sublist"
begin

section \<open>Data model of the CogmemAi client\<close>

subsection \<open>Python values\<close>

text \<open>
  The client moves dynamically typed values around: payload dictionaries built by the
  operations, and whatever \<^verbatim>\<open>resp.json()\<close> decodes. A float is kept as a mantissa and a
  binary exponent (\<open>Finite m e\<close> stands for \<open>m * 2 ^ e\<close>) or one of the special values
  the decoder accepts; the client only ever asks a float whether it is zero.
  A dictionary is an association list in insertion order, as a Python \<^verbatim>\<open>dict\<close> is.
\<close>

datatype pyfloat = Finite int int | PosInf | NegInf | NaN

datatype pyval =
    PNone
  | PBool bool
  | PInt int
  | PFloat pyfloat
  | PStr string
  | PList "pyval list"
  | PDict "(string \<times> pyval) list"

type_synonym pydict = "(string \<times> pyval) list"

text \<open>Python's truth value of an object, as \<^verbatim>\<open>or\<close> and \<^verbatim>\<open>if\<close> test it.\<close>

fun truthy :: "pyval \<Rightarrow> bool" where
  "truthy PNone = False"
| "truthy (PBool b) = b"
| "truthy (PInt i) = (i \<noteq> 0)"
| "truthy (PFloat (Finite m e)) = (m \<noteq> 0)"
| "truthy (PFloat f) = True"
| "truthy (PStr s) = (s \<noteq> [])"
| "truthy (PList xs) = (xs \<noteq> [])"
| "truthy (PDict kvs) = (kvs \<noteq> [])"

text \<open>\<^verbatim>\<open>a or b\<close>: the first operand when it is truthy, the second otherwise.\<close>

definition py_or :: "pyval \<Rightarrow> pyval \<Rightarrow> pyval" where
  "py_or a b = (if truthy a then a else b)"

text \<open>\<^verbatim>\<open>type(x).__name__\<close>, which Python puts into the text of an AttributeError.\<close>

fun type_name :: "pyval \<Rightarrow> string" where
  "type_name PNone = ''NoneType''"
| "type_name (PBool b) = ''bool''"
| "type_name (PInt i) = ''int''"
| "type_name (PFloat f) = ''float''"
| "type_name (PStr s) = ''str''"
| "type_name (PList xs) = ''list''"
| "type_name (PDict kvs) = ''dict''"

subsection \<open>Exceptions\<close>

text \<open>
  Every exception the modelled code can end in is a value.
  \<^item> \<open>ValueError\<close> is raised by the constructor on a bad API key (the specification calls
    this kind of failure ConfigurationError).
  \<^item> \<open>CogmemAiError message status_code\<close> is the class of that name in the source (the
    specification calls it ApiError). Its message is whatever object the caller passes.
  \<^item> \<open>AttributeError type attribute\<close> is Python's own error for a method looked up on an
    object that has none of that name.
  \<^item> \<open>TransportError\<close> stands for any exception the HTTP library raises while sending;
    the client does not catch it.
\<close>

datatype error =
    ValueError string
  | CogmemAiError pyval "int option"
  | AttributeError string string
  | TransportError string

subsection \<open>Client, calls and responses\<close>

text \<open>
  The session object of the HTTP library, as far as the client touches it: the headers
  it attaches to every request.
\<close>

record session =
  headers :: "(string \<times> string) list"

record client =
  api_key :: string
  base_url :: string
  timeout :: int
  session :: session

text \<open>
  One invocation of \<^verbatim>\<open>self._session.request(method, url, **kwargs)\<close>: the verb, the URL,
  the headers the session holds at that moment and the keyword arguments.
\<close>

record http_call =
  call_method :: string
  call_url :: string
  call_headers :: "(string \<times> string) list"
  call_kwargs :: pydict

text \<open>
  What the client reads from a response object: \<^verbatim>\<open>resp.status_code\<close>, \<^verbatim>\<open>resp.text\<close> and
  \<^verbatim>\<open>resp.json()\<close>, where \<open>None\<close> means that decoding raises ValueError.
\<close>

record response =
  status_code :: int
  body_text :: string
  body_json :: "pyval option"

text \<open>
  The HTTP library and the remote service together: a call either raises or yields a
  response. The list of calls made so far (the wire) is threaded through every operation.
\<close>

type_synonym transport = "http_call \<Rightarrow> error + response"

section \<open>Helpers of the Python runtime\<close>

text \<open>\<^verbatim>\<open>s.rstrip(chars)\<close>: drop from the right end every character that occurs in \<open>chars\<close>.\<close>

definition rstrip :: "string \<Rightarrow> string \<Rightarrow> string" where
  "rstrip chars s = rev (dropWhile (\<lambda>c. c \<in> set chars) (rev s))"

text \<open>\<^verbatim>\<open>s.startswith(p)\<close>.\<close>

definition startswith :: "string \<Rightarrow> string \<Rightarrow> bool" where
  "startswith s p = prefix p s"

text \<open>\<^verbatim>\<open>str(n)\<close> for an integer, which an f-string applies to \<^verbatim>\<open>{memory_id}\<close>.\<close>

fun str_nat :: "nat \<Rightarrow> string" where
  "str_nat n =
     (if n < 10 then [''0123456789'' ! n]
      else str_nat (n div 10) @ [''0123456789'' ! (n mod 10)])"

definition str_int :: "int \<Rightarrow> string" where
  "str_int i = (if i < 0 then ''-'' @ str_nat (nat (- i)) else str_nat (nat i))"

text \<open>\<^verbatim>\<open>d.get(k)\<close> on a dictionary: the value, or None when the key is absent.\<close>

definition dict_get :: "pydict \<Rightarrow> string \<Rightarrow> pyval" where
  "dict_get d k = (case map_of d k of None \<Rightarrow> PNone | Some v \<Rightarrow> v)"

text \<open>
  \<^verbatim>\<open>x.get(k)\<close> on an arbitrary object: only a dictionary has the method, every other
  decoded value raises AttributeError.
\<close>

fun py_get :: "pyval \<Rightarrow> string \<Rightarrow> error + pyval" where
  "py_get (PDict d) k = Inr (dict_get d k)"
| "py_get v k = Inl (AttributeError (type_name v) ''get'')"

text \<open>\<^verbatim>\<open>kwargs.setdefault(k, v)\<close>: store \<open>v\<close> under \<open>k\<close> unless the key is there already.\<close>

definition setdefault :: "pydict \<Rightarrow> string \<Rightarrow> pyval \<Rightarrow> pydict" where
  "setdefault d k v = (if k \<in> fst ` set d then d else d @ [(k, v)])"

text \<open>\<^verbatim>\<open>d[k] = v\<close>: replace in place, or append a new key at the end.\<close>

definition setitem :: "pydict \<Rightarrow> string \<Rightarrow> pyval \<Rightarrow> pydict" where
  "setitem d k v = AList.update k v d"

text \<open>A parameter of type \<^verbatim>\<open>dict | None\<close> as the object that is passed on.\<close>

definition opt_dict :: "pydict option \<Rightarrow> pyval" where
  "opt_dict d = (case d of None \<Rightarrow> PNone | Some kvs \<Rightarrow> PDict kvs)"

section \<open>The client\<close>

subsection \<open>Construction\<close>

definition DEFAULT_BASE_URL :: string where
  "DEFAULT_BASE_URL = ''https://hifriendbot.com/wp-json/hifriendbot/v1''"

text \<open>
  \<^verbatim>\<open>CogmemAi.__init__(api_key, base_url=None, timeout=30)\<close>. The fresh
  \<^verbatim>\<open>requests.Session()\<close> comes from the library and is a parameter; \<open>wire\<close> is the list of
  calls made so far, which the constructor hands back as it found it because it sends
  nothing. The two headers are stored as \<^verbatim>\<open>headers.update\<close> does; header names are
  compared as they are written.
\<close>

definition init ::
  "session \<Rightarrow> http_call list \<Rightarrow> string \<Rightarrow> string option \<Rightarrow> int
    \<Rightarrow> http_call list \<times> (error + client)" where
  "init fresh wire key url tmo =
     (if key = [] \<or> \<not> startswith key ''cm_''
      then (wire, Inl (ValueError (''API key must start with '' @ [CHR 0x27] @ ''cm_'' @ [CHR 0x27])))
      else (wire, Inr \<lparr>
        api_key = key,
        base_url = rstrip ''/''
          (case url of None \<Rightarrow> DEFAULT_BASE_URL
           | Some u \<Rightarrow> if u = [] then DEFAULT_BASE_URL else u),
        timeout = tmo,
        session = fresh\<lparr>headers :=
          AList.update ''Content-Type'' ''application/json''
            (AList.update ''Authorization'' (''Bearer '' @ key) (headers fresh))\<rparr>\<rparr>))"

subsection \<open>The generic request\<close>

text \<open>
  The call that \<^verbatim>\<open>_request\<close> hands to the session: lines 72 to 74 of the source, the URL
  built from the stored base URL and the timeout filled in when the caller gave none.
\<close>

definition prepare :: "client \<Rightarrow> string \<Rightarrow> string \<Rightarrow> pydict \<Rightarrow> http_call" where
  "prepare c method path kwargs = \<lparr>
     call_method = method,
     call_url = base_url c @ ''/cogmemai/'' @ path,
     call_headers = headers (session c),
     call_kwargs = setdefault kwargs ''timeout'' (PInt (timeout c))\<rparr>"

text \<open>
  Lines 75 to 82: decode first, then look at the status, then return the decoded body.
\<close>

definition handle :: "response \<Rightarrow> error + pyval" where
  "handle resp =
     (case body_json resp of
        None \<Rightarrow>
          Inl (CogmemAiError (PStr (''Invalid JSON response: '' @ body_text resp))
                 (Some (status_code resp)))
      | Some data \<Rightarrow>
          if status_code resp \<ge> 400 then
            (case py_get data ''error'' of
               Inl e \<Rightarrow> Inl e
             | Inr a \<Rightarrow>
                 if truthy a then Inl (CogmemAiError a (Some (status_code resp)))
                 else (case py_get data ''message'' of
                    Inl e \<Rightarrow> Inl e
                  | Inr b \<Rightarrow>
                      Inl (CogmemAiError (py_or b (PStr (body_text resp)))
                             (Some (status_code resp)))))
          else Inr data)"

text \<open>
  \<^verbatim>\<open>CogmemAi._request(method, path, **kwargs)\<close>. The result is the client as it is after
  the call, the wire with the one call appended, and the outcome.
\<close>

definition request ::
  "transport \<Rightarrow> client \<Rightarrow> http_call list \<Rightarrow> string \<Rightarrow> string \<Rightarrow> pydict
    \<Rightarrow> client \<times> http_call list \<times> (error + pyval)" where
  "request tr c wire method path kwargs =
     (let call = prepare c method path kwargs in
      (c, wire @ [call],
       (case tr call of
          Inl e \<Rightarrow> Inl e
        | Inr resp \<Rightarrow> handle resp)))"

definition get ::
  "transport \<Rightarrow> client \<Rightarrow> http_call list \<Rightarrow> string \<Rightarrow> pydict option
    \<Rightarrow> client \<times> http_call list \<times> (error + pyval)" where
  "get tr c wire path params = request tr c wire ''GET'' path [(''params'', opt_dict params)]"

definition post ::
  "transport \<Rightarrow> client \<Rightarrow> http_call list \<Rightarrow> string \<Rightarrow> pydict option
    \<Rightarrow> client \<times> http_call list \<times> (error + pyval)" where
  "post tr c wire path data = request tr c wire ''POST'' path [(''json'', opt_dict data)]"

definition patch ::
  "transport \<Rightarrow> client \<Rightarrow> http_call list \<Rightarrow> string \<Rightarrow> pydict option
    \<Rightarrow> client \<times> http_call list \<times> (error + pyval)" where
  "patch tr c wire path data = request tr c wire ''PATCH'' path [(''json'', opt_dict data)]"

definition delete ::
  "transport \<Rightarrow> client \<Rightarrow> http_call list \<Rightarrow> string
    \<Rightarrow> client \<times> http_call list \<times> (error + pyval)" where
  "delete tr c wire path = request tr c wire ''DELETE'' path []"

subsection \<open>Operations\<close>

text \<open>\<^verbatim>\<open>save_memory\<close>: one dictionary literal with all seven entries.\<close>

definition save_memory ::
  "transport \<Rightarrow> client \<Rightarrow> http_call list
    \<Rightarrow> string \<Rightarrow> string \<Rightarrow> string \<Rightarrow> string \<Rightarrow> int \<Rightarrow> string \<Rightarrow> string
    \<Rightarrow> client \<times> http_call list \<times> (error + pyval)" where
  "save_memory tr c wire content memory_type category subject importance scope project_id =
     post tr c wire ''store'' (Some
       [(''content'', PStr content),
        (''memory_type'', PStr memory_type),
        (''category'', PStr category),
        (''subject'', PStr subject),
        (''importance'', PInt importance),
        (''scope'', PStr scope),
        (''project_id'', PStr project_id)])"

text \<open>\<^verbatim>\<open>list_memories\<close>: three fixed entries, then one per filter that is not empty.\<close>

definition list_memories ::
  "transport \<Rightarrow> client \<Rightarrow> http_call list
    \<Rightarrow> string \<Rightarrow> string \<Rightarrow> string \<Rightarrow> int \<Rightarrow> int
    \<Rightarrow> client \<times> http_call list \<times> (error + pyval)" where
  "list_memories tr c wire memory_type category scope limit offset =
     (let params = [(''limit'', PInt limit), (''offset'', PInt offset), (''scope'', PStr scope)];
          params = (if memory_type \<noteq> [] then setitem params ''memory_type'' (PStr memory_type)
                    else params);
          params = (if category \<noteq> [] then setitem params ''category'' (PStr category)
                    else params)
      in get tr c wire ''memories'' (Some params))"

text \<open>\<^verbatim>\<open>update_memory\<close>: an empty dictionary, then one entry per argument that was given.\<close>

definition update_memory ::
  "transport \<Rightarrow> client \<Rightarrow> http_call list
    \<Rightarrow> int \<Rightarrow> string \<Rightarrow> int option \<Rightarrow> string
    \<Rightarrow> client \<times> http_call list \<times> (error + pyval)" where
  "update_memory tr c wire memory_id content importance scope =
     (let payload = [];
          payload = (if content \<noteq> [] then setitem payload ''content'' (PStr content)
                     else payload);
          payload = (case importance of None \<Rightarrow> payload
                     | Some i \<Rightarrow> setitem payload ''importance'' (PInt i));
          payload = (if scope \<noteq> [] then setitem payload ''scope'' (PStr scope)
                     else payload)
      in patch tr c wire (''memory/'' @ str_int memory_id) (Some payload))"

text \<open>
  A transport for examples: it answers every call with the same response.
\<close>

definition always :: "response \<Rightarrow> transport" where
  "always resp = (\<lambda>call. Inr resp)"

text \<open>
  A client for examples. It is the one the constructor builds from the key \<open>cm_k\<close>, the
  base URL \<open>https://x/api/\<close>, the default timeout and a session without headers.
\<close>

definition demo_client :: client where
  "demo_client = \<lparr>
     api_key = ''cm_k'',
     base_url = ''https://x/api'',
     timeout = 30,
     session = \<lparr>headers =
       [(''Authorization'', ''Bearer cm_k''), (''Content-Type'', ''application/json'')]\<rparr>\<rparr>"

text \<open>
  The client the constructor builds from the same key when the base URL is left out or
  is the empty string.
\<close>

definition default_client :: client where
  "default_client = \<lparr>
     api_key = ''cm_k'',
     base_url = ''https://hifriendbot.com/wp-json/hifriendbot/v1'',
     timeout = 30,
     session = \<lparr>headers =
       [(''Authorization'', ''Bearer cm_k''), (''Content-Type'', ''application/json'')]\<rparr>\<rparr>"

section \<open>Properties of the generic request\<close>

subsection \<open>Shared facts\<close>

lemma demo_client_built:
  "init \<lparr>headers = []\<rparr> [] ''cm_k'' (Some ''https://x/api/'') 30 = ([], Inr demo_client)"
  by (simp add: init_def startswith_def rstrip_def demo_client_def)

lemma request_wire:
  "fst (snd (request tr c wire method path kwargs)) = wire @ [prepare c method path kwargs]"
  by (simp add: request_def Let_def)

lemma request_outcome:
  "tr (prepare c method path kwargs) = Inr resp \<Longrightarrow>
   snd (snd (request tr c wire method path kwargs)) = handle resp"
  by (simp add: request_def Let_def)

lemma request_always:
  "snd (snd (request (always resp) c wire method path kwargs)) = handle resp"
  by (simp add: request_def Let_def always_def)

lemma handle_undecodable:
  "body_json resp = None \<Longrightarrow>
   handle resp =
     Inl (CogmemAiError (PStr (''Invalid JSON response: '' @ body_text resp))
            (Some (status_code resp)))"
  by (simp add: handle_def)

lemma handle_success:
  "body_json resp = Some data \<Longrightarrow> status_code resp < 400 \<Longrightarrow> handle resp = Inr data"
  by (simp add: handle_def)

lemma handle_error_dict:
  "body_json resp = Some (PDict d) \<Longrightarrow> 400 \<le> status_code resp \<Longrightarrow>
   handle resp =
     Inl (CogmemAiError
       (if truthy (dict_get d ''error'') then dict_get d ''error''
        else if truthy (dict_get d ''message'') then dict_get d ''message''
        else PStr (body_text resp))
       (Some (status_code resp)))"
  by (simp add: handle_def py_or_def)

lemma dict_get_present: "map_of d k = Some v \<Longrightarrow> dict_get d k = v"
  by (simp add: dict_get_def)

lemma dict_get_falsy:
  "\<forall>v. map_of d k = Some v \<longrightarrow> \<not> truthy v \<Longrightarrow> \<not> truthy (dict_get d k)"
  by (cases "map_of d k") (simp_all add: dict_get_def)

subsection \<open>A body that is not JSON\<close>

text \<open>
  Claim C1, as amended. For every response whose body cannot be decoded as JSON, whatever
  its status code (a 2xx one included), the request fails with CogmemAiError; the status
  of the error is the HTTP status code, and its message is the fixed text
  \<open>Invalid JSON response: \<close> followed by the raw response text. No hypothesis restricts
  the status code: decoding is tried before the status is looked at.
\<close>

theorem request_undecodable:
  assumes "tr (prepare c method path kwargs) = Inr resp"
    and "body_json resp = None"
  shows "snd (snd (request tr c wire method path kwargs)) =
     Inl (CogmemAiError (PStr (''Invalid JSON response: '' @ body_text resp))
            (Some (status_code resp)))"
proof -
  have "snd (snd (request tr c wire method path kwargs)) = handle resp"
    using assms(1) request_outcome [of tr c "method" "path" kwargs resp wire] by simp
  also have "\<dots> = Inl (CogmemAiError (PStr (''Invalid JSON response: '' @ body_text resp))
            (Some (status_code resp)))"
    using assms(2) by (rule handle_undecodable)
  finally show ?thesis .
qed

text \<open>The theorem at a 200 response that carries an HTML page.\<close>

theorem request_undecodable_witness:
  "always \<lparr>status_code = 200, body_text = ''<html>'', body_json = None\<rparr>
      (prepare demo_client ''GET'' ''usage'' []) =
     Inr \<lparr>status_code = 200, body_text = ''<html>'', body_json = None\<rparr>
   \<and> body_json \<lparr>status_code = 200, body_text = ''<html>'', body_json = None\<rparr> = None
   \<and> snd (snd (request
        (always \<lparr>status_code = 200, body_text = ''<html>'', body_json = None\<rparr>)
        demo_client [] ''GET'' ''usage'' [])) =
     Inl (CogmemAiError (PStr ''Invalid JSON response: <html>'') (Some 200))"
proof -
  let ?r = "\<lparr>status_code = 200, body_text = ''<html>'', body_json = None\<rparr>"
  have sent: "always ?r (prepare demo_client ''GET'' ''usage'' []) = Inr ?r"
    by (simp add: always_def)
  have undec: "body_json ?r = None"
    by simp
  from request_undecodable [of "always ?r" demo_client "''GET''" "''usage''" "[]" ?r "[]"]
    sent undec show ?thesis
    by simp
qed

text \<open>
  The claim as it was written asks for the raw response text as the message. On a 200
  response with the body \<open>oops\<close> the message is \<open>Invalid JSON response: oops\<close>, which
  is not \<open>oops\<close>.
\<close>

theorem request_undecodable_counterexample:
  "snd (snd (request
      (always \<lparr>status_code = 200, body_text = ''oops'', body_json = None\<rparr>)
      demo_client [] ''GET'' ''usage'' []))
     = Inl (CogmemAiError (PStr ''Invalid JSON response: oops'') (Some 200))
   \<and> snd (snd (request
      (always \<lparr>status_code = 200, body_text = ''oops'', body_json = None\<rparr>)
      demo_client [] ''GET'' ''usage'' []))
     \<noteq> Inl (CogmemAiError (PStr ''oops'') (Some 200))"
  by (simp add: request_always handle_def)

subsection \<open>An error status with a JSON object\<close>

text \<open>
  Claim C2, as amended. For every response with a status of 400 or more whose body decodes
  to a JSON object, the request fails with CogmemAiError carrying the HTTP status, and the
  message is chosen by truth value, in this order: the \<open>error\<close> field when it is present
  and truthy (the message is then that value exactly); else the \<open>message\<close> field when it
  is present and truthy; else the raw response text. A field that is present with a
  falsy value (null, false, zero, an empty string, list or object) is passed over like
  an absent one.
\<close>

theorem request_error_message:
  assumes "tr (prepare c method path kwargs) = Inr resp"
    and "body_json resp = Some (PDict d)"
    and "400 \<le> status_code resp"
  shows
    "(\<forall>e. map_of d ''error'' = Some e \<and> truthy e \<longrightarrow>
        snd (snd (request tr c wire method path kwargs)) =
          Inl (CogmemAiError e (Some (status_code resp))))
     \<and> (\<forall>m. (\<forall>e. map_of d ''error'' = Some e \<longrightarrow> \<not> truthy e)
            \<and> map_of d ''message'' = Some m \<and> truthy m \<longrightarrow>
        snd (snd (request tr c wire method path kwargs)) =
          Inl (CogmemAiError m (Some (status_code resp))))
     \<and> ((\<forall>e. map_of d ''error'' = Some e \<longrightarrow> \<not> truthy e)
          \<and> (\<forall>m. map_of d ''message'' = Some m \<longrightarrow> \<not> truthy m) \<longrightarrow>
        snd (snd (request tr c wire method path kwargs)) =
          Inl (CogmemAiError (PStr (body_text resp)) (Some (status_code resp))))"
proof -
  have out: "snd (snd (request tr c wire method path kwargs)) =
     Inl (CogmemAiError
       (if truthy (dict_get d ''error'') then dict_get d ''error''
        else if truthy (dict_get d ''message'') then dict_get d ''message''
        else PStr (body_text resp))
       (Some (status_code resp)))"
    using request_outcome [of tr c "method" "path" kwargs resp wire]
      handle_error_dict [of resp d] assms by simp
  show ?thesis
  proof (intro conjI allI impI)
    fix e
    assume "map_of d ''error'' = Some e \<and> truthy e"
    then show "snd (snd (request tr c wire method path kwargs)) =
        Inl (CogmemAiError e (Some (status_code resp)))"
      using out by (simp add: dict_get_present)
  next
    fix m
    assume h: "(\<forall>e. map_of d ''error'' = Some e \<longrightarrow> \<not> truthy e)
      \<and> map_of d ''message'' = Some m \<and> truthy m"
    then have "\<not> truthy (dict_get d ''error'')"
      by (simp add: dict_get_falsy)
    with h show "snd (snd (request tr c wire method path kwargs)) =
        Inl (CogmemAiError m (Some (status_code resp)))"
      using out by (simp add: dict_get_present)
  next
    assume h: "(\<forall>e. map_of d ''error'' = Some e \<longrightarrow> \<not> truthy e)
      \<and> (\<forall>m. map_of d ''message'' = Some m \<longrightarrow> \<not> truthy m)"
    then have "\<not> truthy (dict_get d ''error'')" and "\<not> truthy (dict_get d ''message'')"
      by (simp_all add: dict_get_falsy)
    then show "snd (snd (request tr c wire method path kwargs)) =
        Inl (CogmemAiError (PStr (body_text resp)) (Some (status_code resp)))"
      using out by simp
  qed
qed

text \<open>
  The theorem at three error responses: a truthy \<open>error\<close> field wins over \<open>message\<close>,
  a null \<open>error\<close> field gives way to \<open>message\<close>, and an object with neither field
  leaves the raw text.
\<close>

theorem request_error_message_witness:
  \<open>snd (snd (request
      (always \<lparr>status_code = 404,
         body_text = ''{"error": "not found", "message": "gone"}'',
         body_json = Some (PDict [(''error'', PStr ''not found''), (''message'', PStr ''gone'')])\<rparr>)
      demo_client [] ''GET'' ''memory/7/versions'' []))
     = Inl (CogmemAiError (PStr ''not found'') (Some 404))
   \<and> snd (snd (request
      (always \<lparr>status_code = 422,
         body_text = ''{"error": null, "message": "too long"}'',
         body_json = Some (PDict [(''error'', PNone), (''message'', PStr ''too long'')])\<rparr>)
      demo_client [] ''POST'' ''store'' []))
     = Inl (CogmemAiError (PStr ''too long'') (Some 422))
   \<and> snd (snd (request
      (always \<lparr>status_code = 500,
         body_text = ''{"detail": 1}'',
         body_json = Some (PDict [(''detail'', PInt 1)])\<rparr>)
      demo_client [] ''GET'' ''usage'' []))
     = Inl (CogmemAiError (PStr ''{"detail": 1}'') (Some 500))\<close>
proof -
  let ?d1 = "[(''error'', PStr ''not found''), (''message'', PStr ''gone'')]"
  let ?r1 = \<open>\<lparr>status_code = 404,
         body_text = ''{"error": "not found", "message": "gone"}'',
         body_json = Some (PDict ?d1)\<rparr>\<close>
  let ?d2 = "[(''error'', PNone), (''message'', PStr ''too long'')]"
  let ?r2 = \<open>\<lparr>status_code = 422,
         body_text = ''{"error": null, "message": "too long"}'',
         body_json = Some (PDict ?d2)\<rparr>\<close>
  let ?d3 = "[(''detail'', PInt 1)]"
  let ?r3 = \<open>\<lparr>status_code = 500,
         body_text = ''{"detail": 1}'',
         body_json = Some (PDict ?d3)\<rparr>\<close>
  have first: "snd (snd (request (always ?r1) demo_client [] ''GET'' ''memory/7/versions'' []))
      = Inl (CogmemAiError (PStr ''not found'') (Some 404))"
    using request_error_message
      [of "always ?r1" demo_client "''GET''" "''memory/7/versions''" "[]" ?r1 ?d1 "[]"]
    by (simp add: always_def)
  have second: "snd (snd (request (always ?r2) demo_client [] ''POST'' ''store'' []))
      = Inl (CogmemAiError (PStr ''too long'') (Some 422))"
    using request_error_message
      [of "always ?r2" demo_client "''POST''" "''store''" "[]" ?r2 ?d2 "[]"]
    by (simp add: always_def)
  have third: "snd (snd (request (always ?r3) demo_client [] ''GET'' ''usage'' []))
      = Inl (CogmemAiError (PStr (body_text ?r3)) (Some 500))"
    using request_error_message
      [of "always ?r3" demo_client "''GET''" "''usage''" "[]" ?r3 ?d3 "[]"]
    by (simp add: always_def)
  from first second third show ?thesis
    by simp
qed

text \<open>
  The claim as it was written chooses by presence. A 400 response whose object has the
  \<open>error\<close> field present with the empty string as its value, and a \<open>message\<close> field
  \<open>bad\<close>, ends in the message \<open>bad\<close> and not in the value of the \<open>error\<close> field.
\<close>

theorem request_error_message_counterexample:
  \<open>map_of [(''error'', PStr []), (''message'', PStr ''bad'')] ''error'' = Some (PStr [])
   \<and> snd (snd (request
      (always \<lparr>status_code = 400,
         body_text = ''{"error": "", "message": "bad"}'',
         body_json = Some (PDict [(''error'', PStr []), (''message'', PStr ''bad'')])\<rparr>)
      demo_client [] ''POST'' ''store'' []))
     = Inl (CogmemAiError (PStr ''bad'') (Some 400))
   \<and> snd (snd (request
      (always \<lparr>status_code = 400,
         body_text = ''{"error": "", "message": "bad"}'',
         body_json = Some (PDict [(''error'', PStr []), (''message'', PStr ''bad'')])\<rparr>)
      demo_client [] ''POST'' ''store'' []))
     \<noteq> Inl (CogmemAiError (PStr []) (Some 400))\<close>
  by (simp add: request_always handle_def dict_get_def py_or_def)

subsection \<open>A success status with a JSON body\<close>

text \<open>
  Claim C5. For every response with a status below 400 whose body decodes as JSON, the
  request returns the decoded value itself: the very object the decoder produced, with
  nothing added, removed, renamed or altered.
\<close>

theorem request_returns_decoded:
  assumes "tr (prepare c method path kwargs) = Inr resp"
    and "body_json resp = Some data"
    and "status_code resp < 400"
  shows "snd (snd (request tr c wire method path kwargs)) = Inr data"
proof -
  have "snd (snd (request tr c wire method path kwargs)) = handle resp"
    using assms(1) request_outcome [of tr c "method" "path" kwargs resp wire] by simp
  also have "\<dots> = Inr data"
    using assms(2) assms(3) by (rule handle_success)
  finally show ?thesis .
qed

text \<open>The theorem at a 201 response to a store request.\<close>

theorem request_returns_decoded_witness:
  \<open>body_json \<lparr>status_code = 201,
       body_text = ''{"memory_id": 12, "stored": true}'',
       body_json = Some (PDict [(''memory_id'', PInt 12), (''stored'', PBool True)])\<rparr>
     = Some (PDict [(''memory_id'', PInt 12), (''stored'', PBool True)])
   \<and> (201 :: int) < 400
   \<and> snd (snd (request
      (always \<lparr>status_code = 201,
         body_text = ''{"memory_id": 12, "stored": true}'',
         body_json = Some (PDict [(''memory_id'', PInt 12), (''stored'', PBool True)])\<rparr>)
      demo_client [] ''POST'' ''store'' []))
     = Inr (PDict [(''memory_id'', PInt 12), (''stored'', PBool True)])\<close>
proof -
  let ?d = "PDict [(''memory_id'', PInt 12), (''stored'', PBool True)]"
  let ?r = \<open>\<lparr>status_code = 201,
         body_text = ''{"memory_id": 12, "stored": true}'',
         body_json = Some ?d\<rparr>\<close>
  have sent: "always ?r (prepare demo_client ''POST'' ''store'' []) = Inr ?r"
    by (simp add: always_def)
  have dec: "body_json ?r = Some ?d"
    by simp
  have ok: "status_code ?r < 400"
    by simp
  from request_returns_decoded
      [of "always ?r" demo_client "''POST''" "''store''" "[]" ?r ?d "[]"]
    sent dec ok show ?thesis
    by simp
qed

subsection \<open>The client is left as it was\<close>

text \<open>
  Claim C8. Every call of the generic request, whether it returns a body, fails with
  CogmemAiError or ends in any other exception, leaves the client as it was: the API key,
  the base URL, the timeout and the headers attached to the session are those of before
  the call. (The method assigns to no attribute of the client, and the session's
  \<^verbatim>\<open>request\<close> reads the session's headers without storing into them.)
\<close>

theorem request_keeps_client:
  "fst (request tr c wire method path kwargs) = c
   \<and> api_key (fst (request tr c wire method path kwargs)) = api_key c
   \<and> base_url (fst (request tr c wire method path kwargs)) = base_url c
   \<and> timeout (fst (request tr c wire method path kwargs)) = timeout c
   \<and> headers (session (fst (request tr c wire method path kwargs))) = headers (session c)"
  by (simp add: request_def Let_def)

text \<open>The theorem at a call that fails: the client after it is the client before it.\<close>

theorem request_keeps_client_witness:
  "fst (request (always \<lparr>status_code = 500, body_text = ''down'', body_json = None\<rparr>)
      demo_client [] ''GET'' ''usage'' []) = demo_client"
  using request_keeps_client
    [of "always \<lparr>status_code = 500, body_text = ''down'', body_json = None\<rparr>"
        demo_client "[]" "''GET''" "''usage''" "[]"]
  by simp

subsection \<open>An error status with a JSON value that is not an object\<close>

text \<open>
  Claim C9 asks that every error response with a valid JSON body ends in CogmemAiError.
  The code calls \<^verbatim>\<open>data.get\<close> on whatever was decoded, and only a dictionary has that
  method. On a 500 response whose body is the JSON array \<open>[1]\<close> the request ends in
  AttributeError, not in CogmemAiError.
\<close>

theorem request_error_non_object:
  "snd (snd (request
      (always \<lparr>status_code = 500, body_text = ''[1]'', body_json = Some (PList [PInt 1])\<rparr>)
      demo_client [] ''GET'' ''usage'' []))
     = Inl (AttributeError ''list'' ''get'')"
  by (simp add: request_always handle_def)

section \<open>Properties of construction\<close>

subsection \<open>Shared facts\<close>

lemma default_client_built:
  "init \<lparr>headers = []\<rparr> [] ''cm_k'' (Some []) 30 = ([], Inr default_client)"
  by (simp add: init_def startswith_def rstrip_def default_client_def DEFAULT_BASE_URL_def)

lemma rstrip_decomp: "\<exists>n. u = rstrip ''/'' u @ replicate n (CHR ''/'')"
proof -
  let ?P = "\<lambda>c. c \<in> set ''/''"
  let ?t = "takeWhile ?P (rev u)"
  have eq: "?t = replicate (length ?t) (CHR ''/'')"
  proof (rule replicate_length_same [symmetric])
    show "\<forall>y\<in>set ?t. y = CHR ''/''"
      using set_takeWhileD [of _ ?P "rev u"] by auto
  qed
  have "u = rev (?t @ dropWhile ?P (rev u))"
    by simp
  also have "\<dots> = rstrip ''/'' u @ rev ?t"
    unfolding rstrip_def by (simp only: rev_append)
  also have "rev ?t = replicate (length ?t) (CHR ''/'')"
    using eq by (metis rev_replicate)
  finally show ?thesis by blast
qed

lemma rstrip_last: "rstrip ''/'' u = [] \<or> last (rstrip ''/'' u) \<noteq> CHR ''/''"
proof (cases "dropWhile (\<lambda>c. c \<in> set ''/'') (rev u)")
  case Nil
  then show ?thesis by (simp add: rstrip_def)
next
  case (Cons x xs)
  then have "\<not> x \<in> set ''/''"
    using hd_dropWhile [of "\<lambda>c. c \<in> set ''/''" "rev u"] by simp
  with Cons show ?thesis by (simp add: rstrip_def)
qed

lemma rstrip_default: "rstrip ''/'' DEFAULT_BASE_URL = DEFAULT_BASE_URL"
  by (simp add: rstrip_def DEFAULT_BASE_URL_def)

lemma init_base_url:
  "init fresh w0 key url tmo = (w1, Inr c) \<Longrightarrow>
   base_url c = rstrip ''/''
     (case url of None \<Rightarrow> DEFAULT_BASE_URL
      | Some u \<Rightarrow> if u = [] then DEFAULT_BASE_URL else u)"
  by (auto simp add: init_def split: if_splits)

lemma request_urls:
  "map call_url (fst (snd (request tr c wire method path kwargs))) =
     map call_url wire @ [base_url c @ ''/cogmemai/'' @ path]"
  by (simp add: request_wire prepare_def)

subsection \<open>The API key\<close>

text \<open>
  Claim C3. For every credential that is empty or does not start with \<open>cm_\<close>,
  construction fails with ValueError (the specification's ConfigurationError) and the
  wire is as it was, so nothing has been sent; for every credential that starts with
  \<open>cm_\<close>, construction succeeds, again without sending, and the client holds that
  credential.
\<close>

theorem init_checks_key:
  "(key = [] \<or> \<not> prefix ''cm_'' key \<longrightarrow>
      init fresh wire key url tmo =
        (wire, Inl (ValueError
           (''API key must start with '' @ [CHR 0x27] @ ''cm_'' @ [CHR 0x27]))))
   \<and> (prefix ''cm_'' key \<longrightarrow>
      (\<exists>c. init fresh wire key url tmo = (wire, Inr c) \<and> api_key c = key))"
  by (auto simp add: init_def startswith_def)

text \<open>The theorem at the empty key, at a key with another prefix and at a good key.\<close>

theorem init_checks_key_witness:
  "init \<lparr>headers = []\<rparr> [] [] None 30 =
     ([], Inl (ValueError (''API key must start with '' @ [CHR 0x27] @ ''cm_'' @ [CHR 0x27])))
   \<and> init \<lparr>headers = []\<rparr> [] ''sk_live'' None 30 =
     ([], Inl (ValueError (''API key must start with '' @ [CHR 0x27] @ ''cm_'' @ [CHR 0x27])))
   \<and> (\<exists>c. init \<lparr>headers = []\<rparr> [] ''cm_k'' None 30 = ([], Inr c) \<and> api_key c = ''cm_k'')"
proof -
  have bad: "\<not> prefix ''cm_'' ''sk_live''"
    by simp
  have good: "prefix ''cm_'' ''cm_k''"
    by simp
  from init_checks_key [of "[]" "\<lparr>headers = []\<rparr>" "[]" None 30]
  have first: "init \<lparr>headers = []\<rparr> [] [] None 30 =
     ([], Inl (ValueError (''API key must start with '' @ [CHR 0x27] @ ''cm_'' @ [CHR 0x27])))"
    by blast
  from init_checks_key [of "''sk_live''" "\<lparr>headers = []\<rparr>" "[]" None 30] bad
  have second: "init \<lparr>headers = []\<rparr> [] ''sk_live'' None 30 =
     ([], Inl (ValueError (''API key must start with '' @ [CHR 0x27] @ ''cm_'' @ [CHR 0x27])))"
    by blast
  from init_checks_key [of "''cm_k''" "\<lparr>headers = []\<rparr>" "[]" None 30] good
  have third: "\<exists>c. init \<lparr>headers = []\<rparr> [] ''cm_k'' None 30 = ([], Inr c) \<and> api_key c = ''cm_k''"
    by blast
  from first second third show ?thesis
    by blast
qed

subsection \<open>The URL of a request\<close>

text \<open>
  Claim C4, as amended. For every base URL that is not empty and every relative path, a
  request of a client built with that base URL sends exactly one call, and its URL is the
  base URL with its trailing slash characters stripped (what is left ends in no slash,
  and the base URL is what is left followed by slashes only), followed by
  \<open>/cogmemai/\<close>, followed by the path. When the base URL is left out or is the empty
  string, the default service root takes its place.
\<close>

theorem request_url:
  assumes "init fresh w0 key url tmo = (w1, Inr c)"
  shows
    "(\<forall>u. url = Some u \<and> u \<noteq> [] \<longrightarrow>
        map call_url (fst (snd (request tr c wire method path kwargs))) =
          map call_url wire @ [rstrip ''/'' u @ ''/cogmemai/'' @ path]
        \<and> (\<exists>n. u = rstrip ''/'' u @ replicate n (CHR ''/''))
        \<and> (rstrip ''/'' u = [] \<or> last (rstrip ''/'' u) \<noteq> CHR ''/''))
     \<and> (url = None \<or> url = Some [] \<longrightarrow>
        map call_url (fst (snd (request tr c wire method path kwargs))) =
          map call_url wire @ [DEFAULT_BASE_URL @ ''/cogmemai/'' @ path])"
proof (intro conjI allI impI)
  fix u
  assume "url = Some u \<and> u \<noteq> []"
  then have "base_url c = rstrip ''/'' u"
    using init_base_url [OF assms] by simp
  then show "map call_url (fst (snd (request tr c wire method path kwargs))) =
          map call_url wire @ [rstrip ''/'' u @ ''/cogmemai/'' @ path]"
    by (simp add: request_urls)
next
  fix u
  show "\<exists>n. u = rstrip ''/'' u @ replicate n (CHR ''/'')"
    by (rule rstrip_decomp)
next
  fix u
  show "rstrip ''/'' u = [] \<or> last (rstrip ''/'' u) \<noteq> CHR ''/''"
    by (rule rstrip_last)
next
  assume "url = None \<or> url = Some []"
  then have "base_url c = DEFAULT_BASE_URL"
    using init_base_url [OF assms] by (auto simp add: rstrip_default)
  then show "map call_url (fst (snd (request tr c wire method path kwargs))) =
          map call_url wire @ [DEFAULT_BASE_URL @ ''/cogmemai/'' @ path]"
    by (simp add: request_urls)
qed

text \<open>
  The theorem at the base URL \<open>https://x/api/\<close>, whose requests go to
  \<open>https://x/api/cogmemai/...\<close> with a single slash at the joint, and at the empty base
  URL.
\<close>

theorem request_url_witness:
  "init \<lparr>headers = []\<rparr> [] ''cm_k'' (Some ''https://x/api/'') 30 = ([], Inr demo_client)
   \<and> map call_url (fst (snd (request
        (always \<lparr>status_code = 200, body_text = ''[]'', body_json = Some (PList [])\<rparr>)
        demo_client [] ''GET'' ''usage'' []))) = [''https://x/api/cogmemai/usage'']
   \<and> init \<lparr>headers = []\<rparr> [] ''cm_k'' (Some []) 30 = ([], Inr default_client)
   \<and> map call_url (fst (snd (request
        (always \<lparr>status_code = 200, body_text = ''[]'', body_json = Some (PList [])\<rparr>)
        default_client [] ''GET'' ''usage'' []))) =
       [''https://hifriendbot.com/wp-json/hifriendbot/v1/cogmemai/usage'']"
proof -
  let ?tr = "always \<lparr>status_code = 200, body_text = ''[]'', body_json = Some (PList [])\<rparr>"
  have strip: "rstrip ''/'' ''https://x/api/'' = ''https://x/api''"
    by (simp add: rstrip_def)
  have given: "map call_url (fst (snd (request ?tr demo_client [] ''GET'' ''usage'' []))) =
      [''https://x/api/cogmemai/usage'']"
    using request_url [OF demo_client_built, of ?tr "[]" "''GET''" "''usage''" "[]"] strip
    by simp
  have dflt: "map call_url (fst (snd (request ?tr default_client [] ''GET'' ''usage'' []))) =
      [''https://hifriendbot.com/wp-json/hifriendbot/v1/cogmemai/usage'']"
    using request_url [OF default_client_built, of ?tr "[]" "''GET''" "''usage''" "[]"]
    by (simp add: DEFAULT_BASE_URL_def)
  from given dflt demo_client_built default_client_built show ?thesis
    by simp
qed

text \<open>
  The claim as it was written speaks of every base URL. A client built with the empty
  string as its base URL sends its requests to the default service root, not to the
  empty string followed by \<open>/cogmemai/\<close> and the path.
\<close>

theorem request_url_counterexample:
  "init \<lparr>headers = []\<rparr> [] ''cm_k'' (Some []) 30 = ([], Inr default_client)
   \<and> map call_url (fst (snd (request
        (always \<lparr>status_code = 200, body_text = ''[]'', body_json = Some (PList [])\<rparr>)
        default_client [] ''GET'' ''usage'' []))) =
       [''https://hifriendbot.com/wp-json/hifriendbot/v1/cogmemai/usage'']
   \<and> map call_url (fst (snd (request
        (always \<lparr>status_code = 200, body_text = ''[]'', body_json = Some (PList [])\<rparr>)
        default_client [] ''GET'' ''usage'' []))) \<noteq>
       [rstrip ''/'' [] @ ''/cogmemai/'' @ ''usage'']"
  by (simp add: default_client_built request_urls default_client_def rstrip_def)

section \<open>Properties of the operations\<close>

text \<open>
  Claim C6. When \<^verbatim>\<open>update_memory\<close> is called with the importance alone (content and scope
  at their empty defaults), it sends one PATCH call whose JSON body is the dictionary
  with the single key \<open>importance\<close>: no \<open>content\<close> key and no \<open>scope\<close> key.
\<close>

theorem update_memory_importance_only:
  "fst (snd (update_memory tr c wire memory_id [] (Some i) [])) =
     wire @ [\<lparr>call_method = ''PATCH'',
              call_url = base_url c @ ''/cogmemai/memory/'' @ str_int memory_id,
              call_headers = headers (session c),
              call_kwargs = [(''json'', PDict [(''importance'', PInt i)]),
                             (''timeout'', PInt (timeout c))]\<rparr>]"
  by (simp add: update_memory_def patch_def request_wire prepare_def setitem_def
      setdefault_def opt_dict_def)

text \<open>The theorem at memory 42 and the importance 0, which is sent although it is falsy.\<close>

theorem update_memory_importance_only_witness:
  "fst (snd (update_memory
      (always \<lparr>status_code = 200, body_text = ''[]'', body_json = Some (PList [])\<rparr>)
      demo_client [] 42 [] (Some 0) [])) =
     [\<lparr>call_method = ''PATCH'',
       call_url = ''https://x/api/cogmemai/memory/42'',
       call_headers =
         [(''Authorization'', ''Bearer cm_k''), (''Content-Type'', ''application/json'')],
       call_kwargs = [(''json'', PDict [(''importance'', PInt 0)]), (''timeout'', PInt 30)]\<rparr>]"
  using update_memory_importance_only
    [of "always \<lparr>status_code = 200, body_text = ''[]'', body_json = Some (PList [])\<rparr>"
        demo_client "[]" 42 0]
  by (simp add: demo_client_def str_int_def)

text \<open>
  Claim C7. \<^verbatim>\<open>list_memories\<close> sends one GET call whose query parameters are \<open>limit\<close>,
  \<open>offset\<close> and \<open>scope\<close>, then \<open>memory_type\<close> exactly when the caller gave a type that
  is not empty, then \<open>category\<close> exactly when the caller gave a category that is not
  empty. With no filter the parameters are \<open>limit\<close>, \<open>offset\<close> and \<open>scope\<close> alone.
\<close>

theorem list_memories_params:
  "fst (snd (list_memories tr c wire memory_type category scope limit offset)) =
     wire @ [\<lparr>call_method = ''GET'',
              call_url = base_url c @ ''/cogmemai/memories'',
              call_headers = headers (session c),
              call_kwargs =
                [(''params'', PDict
                    ([(''limit'', PInt limit), (''offset'', PInt offset), (''scope'', PStr scope)]
                     @ (if memory_type \<noteq> [] then [(''memory_type'', PStr memory_type)] else [])
                     @ (if category \<noteq> [] then [(''category'', PStr category)] else []))),
                 (''timeout'', PInt (timeout c))]\<rparr>]
   \<and> fst (snd (list_memories tr c wire [] [] scope limit offset)) =
     wire @ [\<lparr>call_method = ''GET'',
              call_url = base_url c @ ''/cogmemai/memories'',
              call_headers = headers (session c),
              call_kwargs =
                [(''params'', PDict
                    [(''limit'', PInt limit), (''offset'', PInt offset), (''scope'', PStr scope)]),
                 (''timeout'', PInt (timeout c))]\<rparr>]"
  by (simp add: list_memories_def get_def request_wire prepare_def setitem_def
      setdefault_def opt_dict_def Let_def)

text \<open>The theorem at the defaults of the operation, and at a call with a category only.\<close>

theorem list_memories_params_witness:
  "map call_kwargs (fst (snd (list_memories
      (always \<lparr>status_code = 200, body_text = ''[]'', body_json = Some (PList [])\<rparr>)
      demo_client [] [] [] ''all'' 50 0))) =
     [[(''params'', PDict
          [(''limit'', PInt 50), (''offset'', PInt 0), (''scope'', PStr ''all'')]),
       (''timeout'', PInt 30)]]
   \<and> map call_kwargs (fst (snd (list_memories
      (always \<lparr>status_code = 200, body_text = ''[]'', body_json = Some (PList [])\<rparr>)
      demo_client [] [] ''frontend'' ''all'' 50 0))) =
     [[(''params'', PDict
          [(''limit'', PInt 50), (''offset'', PInt 0), (''scope'', PStr ''all''),
           (''category'', PStr ''frontend'')]),
       (''timeout'', PInt 30)]]"
  using list_memories_params
    [of "always \<lparr>status_code = 200, body_text = ''[]'', body_json = Some (PList [])\<rparr>"
        demo_client "[]" "[]" "[]" "''all''" 50 0]
    list_memories_params
    [of "always \<lparr>status_code = 200, body_text = ''[]'', body_json = Some (PList [])\<rparr>"
        demo_client "[]" "[]" "''frontend''" "''all''" 50 0]
  by (simp add: demo_client_def)

text \<open>
  Claim C10. \<^verbatim>\<open>save_memory\<close> sends one POST call whose JSON body holds all seven keys
  \<open>content\<close>, \<open>memory_type\<close>, \<open>category\<close>, \<open>subject\<close>, \<open>importance\<close>, \<open>scope\<close>
  and \<open>project_id\<close>, whatever the arguments are; an empty \<open>subject\<close> or \<open>project_id\<close>
  is sent as the empty string, not left out.
\<close>

theorem save_memory_payload:
  "fst (snd (save_memory tr c wire content memory_type category subject importance scope
       project_id)) =
     wire @ [\<lparr>call_method = ''POST'',
              call_url = base_url c @ ''/cogmemai/store'',
              call_headers = headers (session c),
              call_kwargs =
                [(''json'', PDict
                    [(''content'', PStr content),
                     (''memory_type'', PStr memory_type),
                     (''category'', PStr category),
                     (''subject'', PStr subject),
                     (''importance'', PInt importance),
                     (''scope'', PStr scope),
                     (''project_id'', PStr project_id)]),
                 (''timeout'', PInt (timeout c))]\<rparr>]"
  by (simp add: save_memory_def post_def request_wire prepare_def setdefault_def opt_dict_def)

text \<open>The theorem at the defaults of the operation: the two empty strings are in the body.\<close>

theorem save_memory_payload_witness:
  "map call_kwargs (fst (snd (save_memory
      (always \<lparr>status_code = 200, body_text = ''[]'', body_json = Some (PList [])\<rparr>)
      demo_client [] ''uses React'' ''context'' ''general'' [] 5 ''project'' []))) =
     [[(''json'', PDict
          [(''content'', PStr ''uses React''),
           (''memory_type'', PStr ''context''),
           (''category'', PStr ''general''),
           (''subject'', PStr []),
           (''importance'', PInt 5),
           (''scope'', PStr ''project''),
           (''project_id'', PStr [])]),
       (''timeout'', PInt 30)]]"
  using save_memory_payload
    [of "always \<lparr>status_code = 200, body_text = ''[]'', body_json = Some (PList [])\<rparr>"
        demo_client "[]" "''uses React''" "''context''" "''general''" "[]" 5 "''project''" "[]"]
  by (simp add: demo_client_def)

end
